theory Spec2Isabelle
  imports Main "HOL-Library.Word" "HOL-Library.Sublist" "HOL-Library.AList"
begin

section \<open>The node's machine manager and control API (brianmcgee/nex)\<close>

text \<open>
  A shallow embedding of \<^verbatim>\<open>internal/node/machine_mgr.go\<close> and of the stop handler and
  issuer check of \<^verbatim>\<open>internal/node/controlapi.go\<close>. Go pointers to VM records are addresses
  into an explicit heap, because \<^verbatim>\<open>DeployWorkload\<close> writes a record through the pointer it is
  given and \<^verbatim>\<open>StopMachine\<close> reads it through \<^verbatim>\<open>allVMs\<close>. Everything the manager does to the
  outside world (log lines, bus requests, hypervisor shutdowns, cancellation) is appended to
  a trace, in program order. Collaborators that are not part of these two files (the NATS
  client, the JSON codec, the Firecracker driver) are parameters.
\<close>

subsection \<open>Values\<close>

type_synonym bytes = string
type_synonym vmptr = nat

text \<open>
  A Go \<^verbatim>\<open>error\<close>: its text, and whether \<^verbatim>\<open>errors.Is(err, os.ErrDeadlineExceeded)\<close> holds.
  \<^verbatim>\<open>errors.New\<close> and \<^verbatim>\<open>fmt.Errorf\<close> without \<^verbatim>\<open>%w\<close> make errors that wrap nothing.
\<close>

datatype error = GoError (Is_ErrDeadlineExceeded: bool) (Error_text: string)

definition errors_New :: "string \<Rightarrow> error" where
  "errors_New s = GoError False s"

text \<open>What a call gives back: it returns a value, or it panics (a nil dereference).\<close>

datatype 'a result = Return 'a | Panic string

datatype level = Debug | Info | Warn | Error

record DecodedClaims =
  claims_Subject :: string
  claims_Issuer :: string

record DeployRequest =
  Namespace :: "string option"
  WorkloadName :: "string option"
  WorkloadType :: "string option"
  TriggerSubjects :: "string list"
  TotalBytes :: int

record DeployResponse =
  Accepted :: bool
  Message :: "string option"

record HandshakeRequest =
  MachineID :: "string option"
  hs_Message :: "string option"

text \<open>
  \<^verbatim>\<open>runningFirecracker\<close> is declared outside these files; the record has the fields that
  the two files read and write. \<^verbatim>\<open>VcpuCount\<close> and \<^verbatim>\<open>MemSizeMib\<close> stand for
  \<^verbatim>\<open>*vm.machine.Cfg.MachineCfg.VcpuCount\<close> and \<^verbatim>\<open>...MemSizeMib\<close>; \<^verbatim>\<open>claims\<close> for
  \<^verbatim>\<open>vm.workloadSpecification.DecodedClaims\<close>, which only controlapi.go uses.
\<close>

record runningFirecracker =
  vmmID :: string
  namespace :: string
  deployRequest :: "DeployRequest option"
  VcpuCount :: int
  MemSizeMib :: int
  claims :: DecodedClaims

datatype Subscription = Subscription (sub_Subject: string)

text \<open>\<^verbatim>\<open>nats.Header\<close> is \<^verbatim>\<open>map[string][]string\<close>.\<close>

type_synonym Header = "string \<rightharpoonup> string list"

record Msg =
  msg_Subject :: string
  msg_Data :: bytes
  msg_Header :: Header

subsection \<open>Channels\<close>

text \<open>
  A buffered Go channel: \<^verbatim>\<open>make(chan T, n)\<close> panics for negative \<^verbatim>\<open>n\<close>; a send to a closed
  channel panics, a send to a full one blocks, any other send appends to the buffer; a
  receive takes the oldest element, blocks on an empty open channel and yields the zero
  value on an empty closed one; closing a closed channel panics.
\<close>

record 'a chan =
  buf :: "'a list"
  cap :: nat
  closed :: bool

definition make_chan :: "int \<Rightarrow> 'a chan option" where
  "make_chan n = (if n < 0 then None else Some \<lparr>buf = [], cap = nat n, closed = False\<rparr>)"

datatype 'a send_result = Sent "'a chan" | SendBlocks | SendPanics

definition chan_send :: "'a chan \<Rightarrow> 'a \<Rightarrow> 'a send_result" where
  "chan_send c v =
     (if closed c then SendPanics
      else if length (buf c) < cap c then Sent (c\<lparr>buf := buf c @ [v]\<rparr>)
      else SendBlocks)"

datatype 'a recv_result = Received "'a option" "'a chan" | RecvBlocks

definition chan_recv :: "'a chan \<Rightarrow> 'a recv_result" where
  "chan_recv c =
     (case buf c of
        v # rest \<Rightarrow> Received (Some v) (c\<lparr>buf := rest\<rparr>)
      | [] \<Rightarrow> if closed c then Received None c else RecvBlocks)"

definition chan_close :: "'a chan \<Rightarrow> 'a chan option" where
  "chan_close c = (if closed c then None else Some (c\<lparr>closed := True\<rparr>))"

subsection \<open>Telemetry\<close>

text \<open>
  An instrument keeps one sum per attribute set. An OpenTelemetry attribute set is keyed by
  attribute name and does not depend on the order in which \<^verbatim>\<open>WithAttributes\<close> options are
  given; the manager's five instruments only use the keys \<^verbatim>\<open>workload_type\<close> and
  \<^verbatim>\<open>namespace\<close>, so an attribute set is one optional value per key. Sums are unbounded
  integers here.
\<close>

record attrs =
  attr_workload_type :: "string option"
  attr_namespace :: "string option"

type_synonym counter = "attrs \<Rightarrow> int"

definition Add :: "counter \<Rightarrow> int \<Rightarrow> attrs \<Rightarrow> counter" where
  "Add c n a = c(a := c a + n)"

definition no_attrs :: attrs where
  "no_attrs = \<lparr>attr_workload_type = None, attr_namespace = None\<rparr>"

record Telemetry =
  vmCounter :: counter
  workloadCounter :: counter
  deployedByteCounter :: counter
  allocatedVCPUCounter :: counter
  allocatedMemoryCounter :: counter

subsection \<open>The manager\<close>

datatype effect =
    Log level string
  | Cancel
  | InternalRequest string bytes
  | Subscribed string
  | Drained Subscription
  | Shutdown vmptr
  | PublishMachineStopped string
  | Respond bytes
  | GoAwaitHandshake string
  | Sleep
  | OsRemove string

text \<open>
  The fields of \<^verbatim>\<open>MachineManager\<close> that the modelled functions use. \<^verbatim>\<open>closing\<close> is the
  \<^verbatim>\<open>uint32\<close> the code increments atomically. \<^verbatim>\<open>ctxDone\<close> is whether \<^verbatim>\<open>m.ctx\<close> is done;
  \<^verbatim>\<open>m.cancel()\<close> makes it so. \<^verbatim>\<open>handshakeTimeout\<close> is a \<^verbatim>\<open>time.Duration\<close>, in nanoseconds.
  \<^verbatim>\<open>telemetry\<close> is the field \<^verbatim>\<open>t\<close>. The handshake table, whose length the code reads, is a
  list of pairs with one pair per key; the other Go maps are only read and written by key.
\<close>

record MachineManager =
  closing :: "32 word"
  MachinePoolSize :: int
  ValidIssuers :: "string list"
  ctxDone :: bool
  telemetry :: Telemetry
  heap :: "vmptr \<rightharpoonup> runningFirecracker"
  allVMs :: "string \<rightharpoonup> vmptr"
  warmVMs :: "vmptr chan"
  handshakes :: "(string \<times> string) list"
  handshakeTimeout :: int
  stopMutex :: "string \<rightharpoonup> unit"
  vmsubz :: "string \<rightharpoonup> Subscription list"
  trace :: "effect list"

definition emit :: "effect \<Rightarrow> MachineManager \<Rightarrow> MachineManager" where
  "emit e m = m\<lparr>trace := trace m @ [e]\<rparr>"

definition cancel :: "MachineManager \<Rightarrow> MachineManager" where
  "cancel m = emit Cancel (m\<lparr>ctxDone := True\<rparr>)"

definition defaultHandshakeTimeoutMillis :: int where
  "defaultHandshakeTimeoutMillis = 5000"

definition Millisecond :: int where
  "Millisecond = 1000000"

definition nexTriggerSubject :: string where
  "nexTriggerSubject = ''x-nex-trigger-subject''"

definition stopping :: "MachineManager \<Rightarrow> bool" where
  "stopping m = (closing m > 0)"

definition LookupMachine :: "MachineManager \<Rightarrow> string \<Rightarrow> vmptr option" where
  "LookupMachine m vmId = allVMs m vmId"

text \<open>
  The collaborators of deploy and stop. Each is a function of its arguments: what the bus or
  the codec answers to a given call does not depend on the manager's state.
\<close>

record collaborators =
  json_Marshal :: "DeployRequest \<Rightarrow> error + bytes"
  ncInternal_Request :: "string \<Rightarrow> bytes \<Rightarrow> error + bytes"
  json_Unmarshal :: "bytes \<Rightarrow> error + DeployResponse"
  SupportsTriggerSubjects :: "DeployRequest \<Rightarrow> bool"
  nc_Subscribe :: "string \<Rightarrow> error + Subscription"
  Drain :: "Subscription \<Rightarrow> error option"

subsection \<open>StopMachine\<close>

fun drainAll :: "collaborators \<Rightarrow> string \<Rightarrow> Subscription list \<Rightarrow> MachineManager \<Rightarrow> MachineManager" where
  "drainAll env vmID [] m = m"
| "drainAll env vmID (sub # subs) m =
     (let m1 = emit (Drained sub) m;
          m2 = (case Drain env sub of
                  Some err \<Rightarrow>
                    emit (Log Warn (''failed to drain subscription to subject '' @ sub_Subject sub
                      @ '' associated with vm '' @ vmID @ '': '' @ Error_text err)) m1
                | None \<Rightarrow> m1);
          m3 = emit (Log Debug (''drained subscription to subject '' @ sub_Subject sub
                      @ '' associated with vm '' @ vmID)) m2
      in drainAll env vmID subs m3)"

text \<open>Lines 317-320: the decrements made when the VM carries a deploy request.\<close>

definition stop_workload_counters :: "runningFirecracker \<Rightarrow> DeployRequest \<Rightarrow> string \<Rightarrow> Telemetry \<Rightarrow> Telemetry" where
  "stop_workload_counters r req wt tel =
     (let tel1 = tel\<lparr>workloadCounter :=
                   Add (workloadCounter tel) (- 1) \<lparr>attr_workload_type = Some wt, attr_namespace = None\<rparr>\<rparr>;
          tel2 = tel1\<lparr>workloadCounter :=
                   Add (workloadCounter tel1) (- 1) \<lparr>attr_workload_type = Some wt, attr_namespace = Some (namespace r)\<rparr>\<rparr>;
          tel3 = tel2\<lparr>deployedByteCounter :=
                   Add (deployedByteCounter tel2) (TotalBytes req * - 1) no_attrs\<rparr>;
          tel4 = tel3\<lparr>deployedByteCounter :=
                   Add (deployedByteCounter tel3) (TotalBytes req * - 1) \<lparr>attr_workload_type = None, attr_namespace = Some (namespace r)\<rparr>\<rparr>
      in tel4)"

text \<open>Lines 323-327: the decrements made for every stopped VM.\<close>

definition stop_vm_counters :: "runningFirecracker \<Rightarrow> Telemetry \<Rightarrow> Telemetry" where
  "stop_vm_counters r tel =
     (let tel1 = tel\<lparr>vmCounter := Add (vmCounter tel) (- 1) no_attrs\<rparr>;
          tel2 = tel1\<lparr>allocatedVCPUCounter :=
                   Add (allocatedVCPUCounter tel1) (VcpuCount r * - 1) no_attrs\<rparr>;
          tel3 = tel2\<lparr>allocatedVCPUCounter :=
                   Add (allocatedVCPUCounter tel2) (VcpuCount r * - 1) \<lparr>attr_workload_type = None, attr_namespace = Some (namespace r)\<rparr>\<rparr>;
          tel4 = tel3\<lparr>allocatedMemoryCounter :=
                   Add (allocatedMemoryCounter tel3) (MemSizeMib r * - 1) no_attrs\<rparr>;
          tel5 = tel4\<lparr>allocatedMemoryCounter :=
                   Add (allocatedMemoryCounter tel4) (MemSizeMib r * - 1) \<lparr>attr_workload_type = None, attr_namespace = Some (namespace r)\<rparr>\<rparr>
      in tel5)"

text \<open>
  \<^verbatim>\<open>StopMachine\<close>. The mutex is taken and released within the call; in a sequential run
  \<^verbatim>\<open>Lock\<close> returns at once, but on a nil mutex it panics. The error for an unknown id is the
  spec's \<^verbatim>\<open>NotFound\<close>.
\<close>

definition NotFound :: "string \<Rightarrow> error" where
  "NotFound vmID = errors_New (''failed to stop machine '' @ vmID)"

definition StopMachine :: "collaborators \<Rightarrow> string \<Rightarrow> bool \<Rightarrow> MachineManager \<Rightarrow> error option result \<times> MachineManager" where
  "StopMachine env vmID undeploy m =
     (case allVMs m vmID of
        None \<Rightarrow> (Return (Some (NotFound vmID)), m)
      | Some vm \<Rightarrow>
         (case stopMutex m vmID of
            None \<Rightarrow> (Panic ''nil pointer dereference'', m)
          | Some mutex \<Rightarrow>
             (let m1 = emit (Log Debug ''Attempting to stop virtual machine'') m;
                  m2 = drainAll env vmID (case vmsubz m1 vmID of None \<Rightarrow> [] | Some subs \<Rightarrow> subs) m1
              in case heap m2 vm of
                   None \<Rightarrow> (Panic ''nil pointer dereference'', m2)
                 | Some r \<Rightarrow>
                    (let m3 = (if deployRequest r \<noteq> None \<and> undeploy then
                                 (let subject = ''agentint.'' @ vmmID r @ ''.undeploy'';
                                      m' = emit (InternalRequest subject []) m2
                                  in case ncInternal_Request env subject [] of
                                       Inl err \<Rightarrow> emit (Log Warn ''request to undeploy workload via internal NATS connection failed'') m'
                                     | Inr resp \<Rightarrow> m')
                               else m2);
                         m4 = emit (Shutdown vm) m3;
                         m5 = m4\<lparr>allVMs := (allVMs m4)(vmID := None),
                                  stopMutex := (stopMutex m4)(vmID := None),
                                  vmsubz := (vmsubz m4)(vmID := None)\<rparr>;
                         m6 = emit (PublishMachineStopped (vmmID r)) m5
                     in case deployRequest r of
                          None \<Rightarrow> (Return None, m6\<lparr>telemetry := stop_vm_counters r (telemetry m6)\<rparr>)
                        | Some req \<Rightarrow>
                           (case WorkloadType req of
                              None \<Rightarrow> (Panic ''nil pointer dereference'', m6)
                            | Some wt \<Rightarrow>
                               (Return None,
                                m6\<lparr>telemetry := stop_vm_counters r (stop_workload_counters r req wt (telemetry m6))\<rparr>))))))"

subsection \<open>DeployWorkload\<close>

text \<open>Lines 243-250: the increments made when a deployment has gone through.\<close>

definition deploy_counters :: "runningFirecracker \<Rightarrow> DeployRequest \<Rightarrow> string \<Rightarrow> Telemetry \<Rightarrow> Telemetry" where
  "deploy_counters r request wt tel =
     (let tel1 = tel\<lparr>workloadCounter :=
                   Add (workloadCounter tel) 1 \<lparr>attr_workload_type = Some wt, attr_namespace = None\<rparr>\<rparr>;
          tel2 = tel1\<lparr>workloadCounter :=
                   Add (workloadCounter tel1) 1 \<lparr>attr_workload_type = Some wt, attr_namespace = Some (namespace r)\<rparr>\<rparr>;
          tel3 = tel2\<lparr>deployedByteCounter :=
                   Add (deployedByteCounter tel2) (TotalBytes request) no_attrs\<rparr>;
          tel4 = tel3\<lparr>deployedByteCounter :=
                   Add (deployedByteCounter tel3) (TotalBytes request) \<lparr>attr_workload_type = None, attr_namespace = Some (namespace r)\<rparr>\<rparr>;
          tel5 = tel4\<lparr>allocatedVCPUCounter :=
                   Add (allocatedVCPUCounter tel4) (VcpuCount r) no_attrs\<rparr>;
          tel6 = tel5\<lparr>allocatedVCPUCounter :=
                   Add (allocatedVCPUCounter tel5) (VcpuCount r) \<lparr>attr_workload_type = None, attr_namespace = Some (namespace r)\<rparr>\<rparr>;
          tel7 = tel6\<lparr>allocatedMemoryCounter :=
                   Add (allocatedMemoryCounter tel6) (MemSizeMib r) no_attrs\<rparr>;
          tel8 = tel7\<lparr>allocatedMemoryCounter :=
                   Add (allocatedMemoryCounter tel7) (MemSizeMib r) \<lparr>attr_workload_type = None, attr_namespace = Some (namespace r)\<rparr>\<rparr>
      in tel8)"

text \<open>
  Lines 216-236, the loop over the trigger subjects. Both log calls of the body dereference
  \<^verbatim>\<open>request.WorkloadType\<close>, after \<^verbatim>\<open>Subscribe\<close> has been called. The result is \<^verbatim>\<open>Return None\<close>
  when the loop has run to its end, and otherwise what \<^verbatim>\<open>DeployWorkload\<close> returns from
  inside the loop.
\<close>

fun subscribeAll :: "collaborators \<Rightarrow> string \<Rightarrow> DeployRequest \<Rightarrow> string list \<Rightarrow> MachineManager \<Rightarrow> error option result \<times> MachineManager" where
  "subscribeAll env vmID request [] m = (Return None, m)"
| "subscribeAll env vmID request (tsub # rest) m =
     (case nc_Subscribe env tsub of
        Inl err \<Rightarrow>
          (case WorkloadType request of
             None \<Rightarrow> (Panic ''nil pointer dereference'', m)
           | Some wt \<Rightarrow>
              (let m1 = emit (Log Error ''Failed to create trigger subject subscription for deployed workload'') m
               in case StopMachine env vmID True m1 of
                    (Panic p, m2) \<Rightarrow> (Panic p, m2)
                  | (Return ignored, m2) \<Rightarrow> (Return (Some err), m2)))
      | Inr sub \<Rightarrow>
          (let m1 = emit (Subscribed tsub) m
           in case WorkloadType request of
                None \<Rightarrow> (Panic ''nil pointer dereference'', m1)
              | Some wt \<Rightarrow>
                 (let m2 = emit (Log Info ''Created trigger subject subscription for deployed workload'') m1;
                      m3 = m2\<lparr>vmsubz := (vmsubz m2)(vmID \<mapsto>
                              (case vmsubz m2 vmID of None \<Rightarrow> [] | Some subs \<Rightarrow> subs) @ [sub])\<rparr>
                  in subscribeAll env vmID request rest m3)))"

definition DeployWorkload :: "collaborators \<Rightarrow> vmptr \<Rightarrow> DeployRequest \<Rightarrow> MachineManager \<Rightarrow> error option result \<times> MachineManager" where
  "DeployWorkload env vm request m =
     (case json_Marshal env request of
        Inl err \<Rightarrow> (Return (Some err), m)
      | Inr bytes \<Rightarrow>
         (case heap m vm of
            None \<Rightarrow> (Panic ''nil pointer dereference'', m)
          | Some r0 \<Rightarrow>
             (let m1 = emit (Log Debug ''NATS internal connection status'') m;
                  m2 = m1\<lparr>heap := (heap m1)(vm \<mapsto> r0\<lparr>deployRequest := Some request\<rparr>)\<rparr>
              in case Namespace request of
                   None \<Rightarrow> (Panic ''nil pointer dereference'', m2)
                 | Some ns \<Rightarrow>
                    (let r = r0\<lparr>deployRequest := Some request, namespace := ns\<rparr>;
                         m3 = m2\<lparr>heap := (heap m2)(vm \<mapsto> r)\<rparr>;
                         subject = ''agentint.'' @ vmmID r @ ''.deploy'';
                         m4 = emit (InternalRequest subject bytes) m3
                     in case ncInternal_Request env subject bytes of
                          Inl err \<Rightarrow>
                            (if Is_ErrDeadlineExceeded err then
                               (Return (Some (errors_New ''timed out waiting for acknowledgement of workload deployment'')), m4)
                             else
                               (Return (Some (errors_New (''failed to submit request for workload deployment: '' @ Error_text err))), m4))
                        | Inr resp \<Rightarrow>
                           (case json_Unmarshal env resp of
                              Inl err \<Rightarrow> (Return (Some err), m4)
                            | Inr deployResponse \<Rightarrow>
                               (if Accepted deployResponse then
                                  (case (if SupportsTriggerSubjects env request
                                         then subscribeAll env (vmmID r) request (TriggerSubjects request) m4
                                         else (Return None, m4)) of
                                     (Panic p, m5) \<Rightarrow> (Panic p, m5)
                                   | (Return (Some err), m5) \<Rightarrow> (Return (Some err), m5)
                                   | (Return None, m5) \<Rightarrow>
                                      (case WorkloadType request of
                                         None \<Rightarrow> (Panic ''nil pointer dereference'', m5)
                                       | Some wt \<Rightarrow>
                                          (Return None, m5\<lparr>telemetry := deploy_counters r request wt (telemetry m5)\<rparr>)))
                                else
                                  (case StopMachine env (vmmID r) False m4 of
                                     (Panic p, m5) \<Rightarrow> (Panic p, m5)
                                   | (Return ignored, m5) \<Rightarrow>
                                      (case Message deployResponse of
                                         None \<Rightarrow> (Panic ''nil pointer dereference'', m5)
                                       | Some msg \<Rightarrow>
                                          (Return (Some (errors_New (''workload rejected by agent: '' @ msg))), m5)))))))))"

subsection \<open>Manager shutdown and socket cleanup\<close>

text \<open>\<^verbatim>\<open>fmt.Sprintf("%d", n)\<close>: the decimal digits of an integer.\<close>

definition digit :: "nat \<Rightarrow> char" where
  "digit d = ''0123456789'' ! d"

function string_of_nat :: "nat \<Rightarrow> string" where
  "string_of_nat n = (if n < 10 then [digit n] else string_of_nat (n div 10) @ [digit (n mod 10)])"
  by pat_completeness auto
termination
  by (relation "measure id") auto

declare string_of_nat.simps [simp del]

definition Itoa :: "int \<Rightarrow> string" where
  "Itoa i = (if i < 0 then CHR ''-'' # string_of_nat (nat (- i)) else string_of_nat (nat i))"

text \<open>\<^verbatim>\<open>strings.Contains(s, substr)\<close>: \<^verbatim>\<open>substr\<close> occurs in \<^verbatim>\<open>s\<close> as a contiguous run.\<close>

definition Contains :: "string \<Rightarrow> string \<Rightarrow> bool" where
  "Contains s substr = sublist substr s"

text \<open>
  \<^verbatim>\<open>path.Join("tmp", name)\<close> for the name of a directory entry (no slash in it, and not
  \<^verbatim>\<open>.\<close> or \<^verbatim>\<open>..\<close>), where cleaning the joined path changes nothing.
\<close>

definition path_Join_tmp :: "string \<Rightarrow> string" where
  "path_Join_tmp name = ''tmp'' @ ''/'' @ name"

text \<open>
  \<^verbatim>\<open>cleanSockets\<close>. \<^verbatim>\<open>dir\<close> and \<^verbatim>\<open>err\<close> are what \<^verbatim>\<open>os.ReadDir(os.TempDir())\<close> returned (the names
  of the entries of the temp directory), \<^verbatim>\<open>pid\<close> is \<^verbatim>\<open>os.Getpid()\<close>. Each call of
  \<^verbatim>\<open>os.Remove\<close> is recorded with the path it was given.
\<close>

fun removeSockets :: "string list \<Rightarrow> int \<Rightarrow> MachineManager \<Rightarrow> MachineManager" where
  "removeSockets [] pid m = m"
| "removeSockets (name # rest) pid m =
     (if Contains name (''.firecracker.sock-'' @ Itoa pid @ ''-'')
      then removeSockets rest pid (emit (OsRemove (path_Join_tmp name)) m)
      else removeSockets rest pid m)"

definition cleanSockets :: "string list \<Rightarrow> error option \<Rightarrow> int \<Rightarrow> MachineManager \<Rightarrow> MachineManager" where
  "cleanSockets dir err pid m =
     removeSockets dir pid
       (case err of Some e \<Rightarrow> emit (Log Error ''Failed to read temp directory'') m | None \<Rightarrow> m)"

text \<open>
  How the operating system resolves the path given to \<^verbatim>\<open>os.Remove\<close>: a path that starts with
  a slash is taken as it is, any other path is relative to the working directory of the
  process. \<^verbatim>\<open>removed_files\<close> are the absolute paths that a trace asks to remove.
\<close>

definition resolve :: "string \<Rightarrow> string \<Rightarrow> string" where
  "resolve cwd p =
     (if p \<noteq> [] \<and> hd p = CHR ''/'' then p
      else if cwd = ''/'' then cwd @ p
      else cwd @ ''/'' @ p)"

fun removed_files :: "string \<Rightarrow> effect list \<Rightarrow> string list" where
  "removed_files cwd [] = []"
| "removed_files cwd (OsRemove p # es) = resolve cwd p # removed_files cwd es"
| "removed_files cwd (e # es) = removed_files cwd es"

text \<open>
  The loop of \<^verbatim>\<open>Stop\<close> over \<^verbatim>\<open>m.allVMs\<close>. Go leaves the order of a \<^verbatim>\<open>range\<close> over a map open:
  \<^verbatim>\<open>order\<close> is the order in which this run yields the keys. An entry deleted before the loop
  reaches it is not produced.
\<close>

fun stopAll :: "collaborators \<Rightarrow> string list \<Rightarrow> MachineManager \<Rightarrow> unit result \<times> MachineManager" where
  "stopAll env [] m = (Return (), m)"
| "stopAll env (vmID # rest) m =
     (if allVMs m vmID = None then stopAll env rest m
      else
        (case StopMachine env vmID True m of
           (Panic p, m1) \<Rightarrow> (Panic p, m1)
         | (Return (Some err), m1) \<Rightarrow> stopAll env rest (emit (Log Warn ''Failed to stop VM'') m1)
         | (Return None, m1) \<Rightarrow> stopAll env rest m1))"

definition Stop :: "collaborators \<Rightarrow> string list \<Rightarrow> string list \<Rightarrow> error option \<Rightarrow> int \<Rightarrow> MachineManager \<Rightarrow> error option result \<times> MachineManager" where
  "Stop env order dir err pid m =
     (let m1 = m\<lparr>closing := closing m + 1\<rparr>
      in if closing m1 = 1 then
           (let m2 = emit (Log Info ''Virtual machine manager stopping'') m1
            in case chan_close (warmVMs m2) of
                 None \<Rightarrow> (Panic ''close of closed channel'', m2)
               | Some ch \<Rightarrow>
                  (case stopAll env order (m2\<lparr>warmVMs := ch\<rparr>) of
                     (Panic p, m3) \<Rightarrow> (Panic p, m3)
                   | (Return u, m3) \<Rightarrow> (Return None, cleanSockets dir err pid m3)))
         else (Return None, m1))"

subsection \<open>The handshake\<close>

text \<open>
  \<^verbatim>\<open>awaitHandshake\<close> runs beside the rest of the manager: between two rounds of its loop the
  handshake table, the closing flag and the clock change under it. A \<^verbatim>\<open>poll\<close> is what one
  round of the loop reads: the manager as it is during that round, and \<^verbatim>\<open>time.Now()\<close>. The
  result is the manager as the watchdog leaves it when it returns, and \<^verbatim>\<open>None\<close> when it is
  still polling after the last round given.
\<close>

record poll =
  poll_now :: int
  poll_m :: MachineManager

fun awaitLoop :: "string \<Rightarrow> int \<Rightarrow> bool \<Rightarrow> poll list \<Rightarrow> MachineManager option" where
  "awaitLoop vmid timeoutAt handshakeOk [] = None"
| "awaitLoop vmid timeoutAt handshakeOk (p # ps) =
     (let m = poll_m p
      in if \<not> (\<not> handshakeOk \<and> \<not> stopping m) then Some m
         else if poll_now p > timeoutAt then
           (let m1 = emit (Log Error ''Did not receive NATS handshake from agent within timeout.'') m
            in if length (handshakes m1) = 0 then
                 Some (cancel (emit (Log Error ''First handshake failed, shutting down to avoid inconsistent behavior'') m1))
               else Some m1)
         else awaitLoop vmid timeoutAt (map_of (handshakes m) vmid \<noteq> None) ps)"

definition awaitHandshake :: "MachineManager \<Rightarrow> int \<Rightarrow> string \<Rightarrow> poll list \<Rightarrow> MachineManager option" where
  "awaitHandshake m0 now vmid polls = awaitLoop vmid (now + handshakeTimeout m0) False polls"

text \<open>
  \<^verbatim>\<open>handleHandshake\<close>. \<^verbatim>\<open>unmarshal\<close> is \<^verbatim>\<open>json.Unmarshal\<close> into a fresh request: the error and
  the request as it was left. \<^verbatim>\<open>resp\<close> is the encoded empty \<^verbatim>\<open>HandshakeResponse\<close>, \<^verbatim>\<open>respond\<close>
  is \<^verbatim>\<open>msg.Respond\<close>, \<^verbatim>\<open>now\<close> is the formatted current time.
\<close>

definition handleHandshake :: "(bytes \<Rightarrow> error option \<times> HandshakeRequest) \<Rightarrow> bytes \<Rightarrow> (bytes \<Rightarrow> error option) \<Rightarrow> string \<Rightarrow> Msg \<Rightarrow> MachineManager \<Rightarrow> unit result \<times> MachineManager" where
  "handleHandshake unmarshal resp respond now msg m =
     (case unmarshal (msg_Data msg) of (err, req) \<Rightarrow>
        (case MachineID req of
           None \<Rightarrow> (Panic ''nil pointer dereference'', m)
         | Some machineID \<Rightarrow>
            (case hs_Message req of
               None \<Rightarrow> (Panic ''nil pointer dereference'', m)
             | Some message \<Rightarrow>
                (if err \<noteq> None then (Return (), emit (Log Error ''Failed to handle agent handshake'') m)
                 else
                   (let m1 = emit (Log Info ''Received agent handshake'') m
                    in case allVMs m1 machineID of
                         None \<Rightarrow>
                           (Return (), emit (Log Warn ''Received agent handshake attempt from a VM we don't know about.'') m1)
                       | Some vm \<Rightarrow>
                          (let m2 = emit (Respond resp) m1
                           in case respond resp of
                                Some e \<Rightarrow> (Return (), emit (Log Error ''Failed to reply to agent handshake'') m2)
                              | None \<Rightarrow> (Return (), m2\<lparr>handshakes := AList.update machineID now (handshakes m2)\<rparr>)))))))"

subsection \<open>The pool maintainer\<close>

text \<open>
  The struct literal of \<^verbatim>\<open>NewMachineManager\<close> (lines 86-105), for a configuration with the
  given pool size and issuers; \<^verbatim>\<open>None\<close> when \<^verbatim>\<open>make\<close> panics. No VM record exists yet.
\<close>

definition NewMachineManager :: "int \<Rightarrow> string list \<Rightarrow> Telemetry \<Rightarrow> MachineManager option" where
  "NewMachineManager poolSize issuers tel =
     (case make_chan poolSize of
        None \<Rightarrow> None
      | Some ch \<Rightarrow>
          Some \<lparr>closing = 0, MachinePoolSize = poolSize, ValidIssuers = issuers, ctxDone = False,
                telemetry = tel, heap = Map.empty, allVMs = Map.empty, warmVMs = ch,
                handshakes = [],
                handshakeTimeout = defaultHandshakeTimeoutMillis * Millisecond,
                stopMutex = Map.empty, vmsubz = Map.empty, trace = []\<rparr>)"

text \<open>
  The loop of \<^verbatim>\<open>Start\<close> (lines 149-180), one step at a time, so that other goroutines can run
  between the test of the pool's length and the send. The maintainer is at the head of the
  loop, or at the send of line 178 with the VM it has made, or it has returned.
  \<^verbatim>\<open>created\<close> is what \<^verbatim>\<open>createAndStartVM\<close> returns in this round (the new record and its
  address) and \<^verbatim>\<open>metadata\<close> what \<^verbatim>\<open>setMetadata\<close> returns. A send on the closed channel panics;
  the deferred \<^verbatim>\<open>recover\<close> logs it and \<^verbatim>\<open>Start\<close> returns.
\<close>

datatype pc = LoopHead | Sending vmptr | Returned

definition Start_step :: "(error + vmptr \<times> runningFirecracker) \<Rightarrow> error option \<Rightarrow> pc \<Rightarrow> MachineManager \<Rightarrow> pc \<times> MachineManager" where
  "Start_step created metadata at m =
     (case at of
        Returned \<Rightarrow> (Returned, m)
      | LoopHead \<Rightarrow>
          (if stopping m then (Returned, m)
           else if ctxDone m then (Returned, m)
           else if int (length (buf (warmVMs m))) = MachinePoolSize m then (LoopHead, emit Sleep m)
           else
             (case created of
                Inl err \<Rightarrow> (LoopHead, emit (Log Warn ''Failed to create VMM for warming pool.'') m)
              | Inr (vm, r) \<Rightarrow>
                 (let m1 = m\<lparr>heap := (heap m)(vm \<mapsto> r)\<rparr>
                  in case metadata of
                       Some err \<Rightarrow>
                         (LoopHead, emit (Log Warn ''Failed to set metadata on VM for warming pool.'') m1)
                     | None \<Rightarrow>
                        (let m2 = emit (GoAwaitHandshake (vmmID r)) m1;
                             m3 = m2\<lparr>allVMs := (allVMs m2)(vmmID r \<mapsto> vm)\<rparr>;
                             m4 = m3\<lparr>stopMutex := (stopMutex m3)(vmmID r \<mapsto> ())\<rparr>;
                             m5 = m4\<lparr>telemetry := (telemetry m4)\<lparr>vmCounter :=
                                        Add (vmCounter (telemetry m4)) 1 no_attrs\<rparr>\<rparr>;
                             m6 = emit (Log Info ''Adding new VM to warm pool'') m5
                         in (Sending vm, m6)))))
      | Sending vm \<Rightarrow>
          (case chan_send (warmVMs m) vm of
             Sent ch \<Rightarrow> (LoopHead, m\<lparr>warmVMs := ch\<rparr>)
           | SendBlocks \<Rightarrow> (Sending vm, m)
           | SendPanics \<Rightarrow> (Returned, emit (Log Debug ''recovered'') m)))"

text \<open>
  What can happen to a running manager, in any order: a step of the maintainer, a consumer
  receiving from the pool, a deployment, the stop of one VM, a handshake message, the
  shutdown of the manager.
\<close>

datatype event =
    Maintainer "error + vmptr \<times> runningFirecracker" "error option"
  | Receive
  | Deploy vmptr DeployRequest
  | StopVM string bool
  | Handshake "error option \<times> HandshakeRequest" "error option" string
  | Shutdown_manager "string list" "string list" "error option" int

fun step :: "collaborators \<Rightarrow> event \<Rightarrow> pc \<times> MachineManager \<Rightarrow> pc \<times> MachineManager" where
  "step env (Maintainer created metadata) (at, m) = Start_step created metadata at m"
| "step env Receive (at, m) =
     (case chan_recv (warmVMs m) of
        Received v ch \<Rightarrow> (at, m\<lparr>warmVMs := ch\<rparr>)
      | RecvBlocks \<Rightarrow> (at, m))"
| "step env (Deploy vm request) (at, m) = (at, snd (DeployWorkload env vm request m))"
| "step env (StopVM vmID undeploy) (at, m) = (at, snd (StopMachine env vmID undeploy m))"
| "step env (Handshake decoded responded now) (at, m) =
     (at, snd (handleHandshake (\<lambda>d. decoded) [] (\<lambda>b. responded) now
                 \<lparr>msg_Subject = ''agentint.handshake'', msg_Data = [], msg_Header = Map.empty\<rparr> m))"
| "step env (Shutdown_manager order dir err pid) (at, m) = (at, snd (Stop env order dir err pid m))"

fun run :: "collaborators \<Rightarrow> event list \<Rightarrow> pc \<times> MachineManager \<Rightarrow> pc \<times> MachineManager" where
  "run env [] s = s"
| "run env (e # es) s = run env es (step env e s)"

subsection \<open>The trigger handler\<close>

definition Header_Add :: "Header \<Rightarrow> string \<Rightarrow> string \<Rightarrow> Header" where
  "Header_Add h k v = h(k \<mapsto> (case h k of None \<Rightarrow> [] | Some vs \<Rightarrow> vs) @ [v])"

definition NewMsg :: "string \<Rightarrow> Msg" where
  "NewMsg subject = \<lparr>msg_Subject = subject, msg_Data = [], msg_Header = Map.empty\<rparr>"

text \<open>
  The closure of \<^verbatim>\<open>generateTriggerHandler\<close> up to the request it sends (lines 431-462).
  \<^verbatim>\<open>Inject\<close> is what \<^verbatim>\<open>otel.GetTextMapPropagator().Inject(cctx, carrier)\<close> does to the header map
  it is given as carrier. The result is the internal message passed to \<^verbatim>\<open>RequestMsg\<close> and the
  inbound message as the closure leaves it.
\<close>

definition triggerHandler_request :: "(Header \<Rightarrow> Header) \<Rightarrow> MachineManager \<Rightarrow> vmptr \<Rightarrow> DeployRequest \<Rightarrow> Msg \<Rightarrow> (Msg \<times> Msg) result" where
  "triggerHandler_request Inject m vm request msg =
     (case WorkloadName request of
        None \<Rightarrow> Panic ''nil pointer dereference''
      | Some name \<Rightarrow>
         (case heap m vm of
            None \<Rightarrow> Panic ''nil pointer dereference''
          | Some r \<Rightarrow>
             (let intmsg = NewMsg (''agentint.'' @ vmmID r @ ''.trigger'');
                  intmsg1 = intmsg\<lparr>msg_Data := msg_Data msg\<rparr>;
                  intmsg2 = intmsg1\<lparr>msg_Header := Header_Add (msg_Header intmsg1) nexTriggerSubject (msg_Subject msg)\<rparr>;
                  msg1 = msg\<lparr>msg_Header := Inject (msg_Header msg)\<rparr>
              in Return (intmsg2, msg1))))"

subsection \<open>The control API: issuer check and stop handler\<close>

definition validateIssuer :: "string \<Rightarrow> string list \<Rightarrow> bool" where
  "validateIssuer issuer validIssuers =
     (if length validIssuers = 0 then True else issuer \<in> set validIssuers)"

text \<open>\<^verbatim>\<open>strings.Split(s, sep)\<close> for a separator of one character.\<close>

fun Split :: "string \<Rightarrow> char \<Rightarrow> string list" where
  "Split [] sep = [[]]"
| "Split (c # cs) sep =
     (if c = sep then [] # Split cs sep
      else (case Split cs sep of
              tok # toks \<Rightarrow> (c # tok) # toks
            | [] \<Rightarrow> [[c]]))"

definition extractNamespace :: "string \<Rightarrow> error + string" where
  "extractNamespace subject =
     (let tokens = Split subject (CHR ''.'')
      in if length tokens < 3 then Inl (errors_New ''Invalid subject - could not detect a namespace'')
         else Inr (tokens ! 2))"

record StopRequest =
  WorkloadId :: string

record StopResponse =
  Stopped :: bool
  Name :: string
  Issuer :: string
  MachineId :: string

text \<open>
  A response envelope as \<^verbatim>\<open>controlapi.NewEnvelope(type, data, err)\<close> builds it; of the
  response types only the stop response occurs here. A reply is the envelope handed to
  \<^verbatim>\<open>m.Respond\<close> after encoding.
\<close>

datatype payload = EmptyBytes | StopResponseData StopResponse

record Envelope =
  env_Type :: string
  env_Data :: payload
  env_Error :: "string option"

definition respondFail :: "string \<Rightarrow> string \<Rightarrow> Envelope" where
  "respondFail responseType reason = \<lparr>env_Type = responseType, env_Data = EmptyBytes, env_Error = Some reason\<rparr>"

text \<open>
  \<^verbatim>\<open>handleStop\<close>. \<^verbatim>\<open>StopResponseType\<close> is the constant of the control API package,
  \<^verbatim>\<open>unmarshal\<close> is \<^verbatim>\<open>json.Unmarshal\<close> into a stop request, \<^verbatim>\<open>validate\<close> is
  \<^verbatim>\<open>request.Validate\<close>, and \<^verbatim>\<open>stopMachine\<close> is the manager's \<^verbatim>\<open>StopMachine\<close> as this file
  calls it, with the workload id only. The result is the list of replies sent, in order,
  and the manager afterwards.
\<close>

definition handleStop :: "string \<Rightarrow> (bytes \<Rightarrow> error + StopRequest) \<Rightarrow> (StopRequest \<Rightarrow> DecodedClaims \<Rightarrow> error option) \<Rightarrow> (string \<Rightarrow> MachineManager \<Rightarrow> error option \<times> MachineManager) \<Rightarrow> Msg \<Rightarrow> MachineManager \<Rightarrow> Envelope list result \<times> MachineManager" where
  "handleStop StopResponseType unmarshal validate stopMachine msg m =
     (case extractNamespace (msg_Subject msg) of
        Inl err \<Rightarrow> (Return [respondFail StopResponseType ''Invalid subject for workload stop''], m)
      | Inr ns \<Rightarrow>
         (case unmarshal (msg_Data msg) of
            Inl err \<Rightarrow>
              (Return [respondFail StopResponseType (''Unable to deserialize stop request: '' @ Error_text err)], m)
          | Inr request \<Rightarrow>
             (case LookupMachine m (WorkloadId request) of
                None \<Rightarrow> (Return [respondFail StopResponseType ''No such workload''], m)
              | Some vm \<Rightarrow>
                 (case heap m vm of
                    None \<Rightarrow> (Panic ''nil pointer dereference'', m)
                  | Some r \<Rightarrow>
                     (if namespace r \<noteq> ns then
                        (Return [respondFail StopResponseType ''No such workload''], m)
                      else
                        (case validate request (claims r) of
                           Some err \<Rightarrow>
                             (Return [respondFail StopResponseType (''Invalid stop request: '' @ Error_text err)], m)
                         | None \<Rightarrow>
                            (case stopMachine (WorkloadId request) m of (err, m1) \<Rightarrow>
                               (case heap m1 vm of
                                  None \<Rightarrow> (Panic ''nil pointer dereference'', m1)
                                | Some r1 \<Rightarrow>
                                   (let failed = (case err of
                                                    Some e \<Rightarrow> [respondFail StopResponseType (''Failed to stop workload: '' @ Error_text e)]
                                                  | None \<Rightarrow> []);
                                        res = \<lparr>env_Type = StopResponseType,
                                               env_Data = StopResponseData
                                                 \<lparr>Stopped = True, Name = claims_Subject (claims r1),
                                                  Issuer = claims_Issuer (claims r1), MachineId = vmmID r1\<rparr>,
                                               env_Error = None\<rparr>
                                    in (Return (failed @ [res]), m1))))))))))"

subsection \<open>Scenarios\<close>

text \<open>
  A node with fresh instruments, and collaborators that always succeed: the agent accepts
  every deployment, every subscription and every drain goes through.
\<close>

definition zero_telemetry :: Telemetry where
  "zero_telemetry = \<lparr>vmCounter = (\<lambda>a. 0), workloadCounter = (\<lambda>a. 0), deployedByteCounter = (\<lambda>a. 0),
     allocatedVCPUCounter = (\<lambda>a. 0), allocatedMemoryCounter = (\<lambda>a. 0)\<rparr>"

definition quiet_env :: collaborators where
  "quiet_env = \<lparr>json_Marshal = (\<lambda>r. Inr ''request''),
     ncInternal_Request = (\<lambda>s b. Inr ''reply''),
     json_Unmarshal = (\<lambda>b. Inr \<lparr>Accepted = True, Message = None\<rparr>),
     SupportsTriggerSubjects = (\<lambda>r. TriggerSubjects r \<noteq> []),
     nc_Subscribe = (\<lambda>s. Inr (Subscription s)),
     Drain = (\<lambda>s. None)\<rparr>"

text \<open>
  A node of pool size 1 whose maintainer has made the VM \<^verbatim>\<open>vm1\<close> (at address 0) and whose
  pool has been emptied by a consumer: the VM is registered and warm.
\<close>

definition warm_vm :: runningFirecracker where
  "warm_vm = \<lparr>vmmID = ''vm1'', namespace = [], deployRequest = None, VcpuCount = 1, MemSizeMib = 256,
     claims = \<lparr>claims_Subject = [], claims_Issuer = []\<rparr>\<rparr>"

definition one_vm_node :: MachineManager where
  "one_vm_node = \<lparr>closing = 0, MachinePoolSize = 1, ValidIssuers = [], ctxDone = False,
     telemetry = zero_telemetry, heap = [0 \<mapsto> warm_vm], allVMs = [''vm1'' \<mapsto> 0],
     warmVMs = \<lparr>buf = [], cap = 1, closed = False\<rparr>, handshakes = [],
     handshakeTimeout = 5000000000, stopMutex = [''vm1'' \<mapsto> ()], vmsubz = Map.empty, trace = []\<rparr>"

text \<open>The VM of that node once a workload of namespace \<^verbatim>\<open>A\<close> has been deployed on it.\<close>

definition deployed_node :: MachineManager where
  "deployed_node = one_vm_node\<lparr>heap := [0 \<mapsto> warm_vm\<lparr>namespace := ''A'',
      deployRequest := Some \<lparr>Namespace = Some ''A'', WorkloadName = Some ''echo'',
        WorkloadType = Some ''v8'', TriggerSubjects = [], TotalBytes = 10\<rparr>\<rparr>]\<rparr>"

text \<open>The replies that a trace records, in order.\<close>

fun replies :: "effect list \<Rightarrow> bytes list" where
  "replies [] = []"
| "replies (Respond b # es) = b # replies es"
| "replies (e # es) = replies es"

text \<open>Two handshake messages: one from a VM the node does not know, one from \<^verbatim>\<open>vm1\<close>.\<close>

definition hello_ghost :: "bytes \<Rightarrow> error option \<times> HandshakeRequest" where
  "hello_ghost d = (None, \<lparr>MachineID = Some ''ghost'', hs_Message = Some ''hello''\<rparr>)"

definition hello_vm1 :: "bytes \<Rightarrow> error option \<times> HandshakeRequest" where
  "hello_vm1 d = (None, \<lparr>MachineID = Some ''vm1'', hs_Message = Some ''hello''\<rparr>)"

definition hello_msg :: Msg where
  "hello_msg = \<lparr>msg_Subject = ''agentint.handshake'', msg_Data = ''hello'', msg_Header = Map.empty\<rparr>"

text \<open>
  Rounds of the watchdog of \<^verbatim>\<open>vm1\<close>, started at time 0 with the timeout of 5 s: a round
  after 1 s and a round after 6 s, on a node where nobody has said hello, where another VM
  has, and where the manager is stopping in the later round.
\<close>

definition polls_silent :: "poll list" where
  "polls_silent = [\<lparr>poll_now = 1000000000, poll_m = one_vm_node\<rparr>,
                   \<lparr>poll_now = 6000000000, poll_m = one_vm_node\<rparr>]"

definition polls_other_vm :: "poll list" where
  "polls_other_vm = [\<lparr>poll_now = 1000000000, poll_m = one_vm_node\<rparr>,
                     \<lparr>poll_now = 6000000000, poll_m = one_vm_node\<lparr>handshakes := [(''vm0'', ''2024-01-01T00:00:00Z'')]\<rparr>\<rparr>]"

definition polls_stopping :: "poll list" where
  "polls_stopping = [\<lparr>poll_now = 1000000000, poll_m = one_vm_node\<rparr>,
                     \<lparr>poll_now = 6000000000, poll_m = one_vm_node\<lparr>closing := 1\<rparr>\<rparr>]"

text \<open>
  The node of scenario S4: as above, but the subscription to \<^verbatim>\<open>t.b\<close> fails. The request is
  a \<^verbatim>\<open>v8\<close> workload of namespace \<^verbatim>\<open>ns\<close> with the trigger subjects \<^verbatim>\<open>t.a\<close> and \<^verbatim>\<open>t.b\<close>.
\<close>

definition s4_env :: collaborators where
  "s4_env = quiet_env\<lparr>nc_Subscribe :=
     (\<lambda>s. if s = ''t.b'' then Inl (GoError False ''nats: subscription to t.b failed'')
          else Inr (Subscription s))\<rparr>"

definition s4_request :: DeployRequest where
  "s4_request = \<lparr>Namespace = Some ''ns'', WorkloadName = Some ''echo'', WorkloadType = Some ''v8'',
     TriggerSubjects = [''t.a'', ''t.b''], TotalBytes = 10\<rparr>"

text \<open>
  A request without trigger subjects; an agent that does not answer within the second, the
  request failing with an error for which \<^verbatim>\<open>errors.Is(err, os.ErrDeadlineExceeded)\<close> holds;
  and an agent that rejects the workload.
\<close>

definition plain_request :: DeployRequest where
  "plain_request = \<lparr>Namespace = Some ''ns'', WorkloadName = Some ''echo'', WorkloadType = Some ''v8'',
     TriggerSubjects = [], TotalBytes = 10\<rparr>"



text \<open>
  The manager as \<^verbatim>\<open>DeployWorkload\<close> has it once the request is bound to the VM record and
  sent to the agent (lines 194-199).
\<close>

definition deploy_sent :: "MachineManager \<Rightarrow> vmptr \<Rightarrow> runningFirecracker \<Rightarrow> DeployRequest \<Rightarrow> string \<Rightarrow> bytes \<Rightarrow> MachineManager" where
  "deploy_sent m vm r0 request ns bytes =
     emit (InternalRequest (''agentint.'' @ vmmID r0 @ ''.deploy'') bytes)
       ((emit (Log Debug ''NATS internal connection status'') m)
          \<lparr>heap := (heap m)(vm \<mapsto> r0\<lparr>deployRequest := Some request, namespace := ns\<rparr>)\<rparr>)"

text \<open>
  A propagator that writes the W3C \<^verbatim>\<open>traceparent\<close> field into its carrier, and a message on
  the trigger subject \<^verbatim>\<open>t.a\<close>.
\<close>

definition w3c_inject :: "Header \<Rightarrow> Header" where
  "w3c_inject h = h(''traceparent'' \<mapsto> [''00-0af7651916cd43dd8448eb211c80319c-b7ad6b7169203331-01''])"

definition trigger_msg :: Msg where
  "trigger_msg = \<lparr>msg_Subject = ''t.a'', msg_Data = ''payload'', msg_Header = Map.empty\<rparr>"

text \<open>
  The entries of a temp directory: a socket of process 42, a file whose name only contains
  the socket pattern of process 42, and a socket of process 7.
\<close>

definition temp_dir :: "string list" where
  "temp_dir = [''.firecracker.sock-42-abc'', ''x.firecracker.sock-42-y'', ''.firecracker.sock-7-abc'']"

text \<open>
  What the pool bound is about: the buffer and the capacity of the pool channel and the
  configured pool size.
\<close>

definition pool :: "MachineManager \<Rightarrow> vmptr list \<times> nat \<times> int" where
  "pool m = (buf (warmVMs m), cap (warmVMs m), MachinePoolSize m)"

definition pool_ok :: "MachineManager \<Rightarrow> bool" where
  "pool_ok m = (length (buf (warmVMs m)) \<le> cap (warmVMs m) \<and> int (cap (warmVMs m)) = MachinePoolSize m)"

text \<open>
  A new manager of pool size 1, the same manager with its pool full, and a maintainer that
  makes one VM, sends it, and comes back to the head of its loop twice.
\<close>

definition fresh_node :: MachineManager where
  "fresh_node = \<lparr>closing = 0, MachinePoolSize = 1, ValidIssuers = [], ctxDone = False,
     telemetry = zero_telemetry, heap = Map.empty, allVMs = Map.empty,
     warmVMs = \<lparr>buf = [], cap = 1, closed = False\<rparr>, handshakes = [],
     handshakeTimeout = 5000000000, stopMutex = Map.empty, vmsubz = Map.empty, trace = []\<rparr>"

definition full_node :: MachineManager where
  "full_node = fresh_node\<lparr>warmVMs := \<lparr>buf = [0], cap = 1, closed = False\<rparr>\<rparr>"

definition pool_events :: "event list" where
  "pool_events = [Maintainer (Inr (0, warm_vm)) None, Maintainer (Inr (1, warm_vm)) None,
                  Maintainer (Inr (1, warm_vm)) None, Maintainer (Inr (1, warm_vm)) None]"

section \<open>Properties\<close>

subsection \<open>What a trace entry leaves alone\<close>

lemma emit_simps [simp]:
  "allVMs (emit e m) = allVMs m"
  "heap (emit e m) = heap m"
  "stopMutex (emit e m) = stopMutex m"
  "vmsubz (emit e m) = vmsubz m"
  "warmVMs (emit e m) = warmVMs m"
  "handshakes (emit e m) = handshakes m"
  "telemetry (emit e m) = telemetry m"
  "closing (emit e m) = closing m"
  "MachinePoolSize (emit e m) = MachinePoolSize m"
  "ctxDone (emit e m) = ctxDone m"
  "handshakeTimeout (emit e m) = handshakeTimeout m"
  "ValidIssuers (emit e m) = ValidIssuers m"
  "trace (emit e m) = trace m @ [e]"
  by (simp_all add: emit_def)

subsection \<open>Stopping a VM\<close>

lemma StopMachine_removes:
  "StopMachine env vmID undeploy m = (Return None, m') \<Longrightarrow> allVMs m' vmID = None"
  by (auto simp: StopMachine_def Let_def split: option.splits if_splits sum.splits)

lemma one_vm_stop: "fst (StopMachine quiet_env ''vm1'' True one_vm_node) = Return None"
  by (simp add: StopMachine_def one_vm_node_def warm_vm_def Let_def)

text \<open>
  C2. \<^verbatim>\<open>StopMachine\<close> on an id that is not in \<^verbatim>\<open>allVMs\<close> returns the not-found error and
  leaves the manager as it was: no map, no counter and no trace entry changes. Hence, once
  a first stop of an id has returned without error, a second stop of the same id (with
  either value of \<^verbatim>\<open>undeploy\<close>) returns not-found and changes nothing: no second teardown
  and no second decrement.
\<close>

theorem StopMachine_not_found_idempotent:
  "(allVMs m vmID = None \<longrightarrow>
      StopMachine env vmID undeploy m = (Return (Some (NotFound vmID)), m))
   \<and> (StopMachine env vmID undeploy m = (Return None, m') \<longrightarrow>
      StopMachine env vmID undeploy2 m' = (Return (Some (NotFound vmID)), m'))"
proof (intro conjI impI)
  assume "allVMs m vmID = None"
  then show "StopMachine env vmID undeploy m = (Return (Some (NotFound vmID)), m)"
    by (simp add: StopMachine_def)
next
  assume "StopMachine env vmID undeploy m = (Return None, m')"
  then have "allVMs m' vmID = None" by (rule StopMachine_removes)
  then show "StopMachine env vmID undeploy2 m' = (Return (Some (NotFound vmID)), m')"
    by (simp add: StopMachine_def)
qed

theorem StopMachine_not_found_idempotent_witness:
  "StopMachine quiet_env ''vm9'' True one_vm_node = (Return (Some (NotFound ''vm9'')), one_vm_node)
   \<and> StopMachine quiet_env ''vm1'' False (snd (StopMachine quiet_env ''vm1'' True one_vm_node))
       = (Return (Some (NotFound ''vm1'')), snd (StopMachine quiet_env ''vm1'' True one_vm_node))"
proof -
  have a: "allVMs one_vm_node ''vm9'' = None" by (simp add: one_vm_node_def)
  have b: "StopMachine quiet_env ''vm1'' True one_vm_node
             = (Return None, snd (StopMachine quiet_env ''vm1'' True one_vm_node))"
    using one_vm_stop by (metis prod.collapse)
  show ?thesis
    using StopMachine_not_found_idempotent [of one_vm_node "''vm9''" quiet_env True one_vm_node False]
      StopMachine_not_found_idempotent [of one_vm_node "''vm1''" quiet_env True
        "snd (StopMachine quiet_env ''vm1'' True one_vm_node)" False] a b
    by blast
qed

subsection \<open>The control API\<close>

text \<open>
  C10. With an empty allow-list \<^verbatim>\<open>validateIssuer\<close> accepts every issuer; with a non-empty
  one it accepts exactly the issuers in the list.
\<close>

theorem validateIssuer_allow_list:
  "(validIssuers = [] \<longrightarrow> validateIssuer issuer validIssuers)
   \<and> (validIssuers \<noteq> [] \<longrightarrow> validateIssuer issuer validIssuers = (issuer \<in> set validIssuers))"
  by (simp add: validateIssuer_def)

theorem validateIssuer_allow_list_witness:
  "validateIssuer ''anyone'' [] \<and> validateIssuer ''A'' [''A'', ''B''] \<and> \<not> validateIssuer ''C'' [''A'', ''B'']"
  using validateIssuer_allow_list [of "[]" "''anyone''"]
        validateIssuer_allow_list [of "[''A'', ''B'']" "''A''"]
        validateIssuer_allow_list [of "[''A'', ''B'']" "''C''"]
  by simp

lemma ns_B: "extractNamespace ''$NEX.STOP.B.node1'' = Inr ''B''"
  by (simp add: extractNamespace_def)

text \<open>
  C6. A stop request whose subject names a namespace other than the one bound to the
  target VM gets the reply that a request for an id the node does not know gets, the
  failure envelope with reason \<^verbatim>\<open>No such workload\<close>, and the manager is left unchanged: the
  VM stays registered with its deploy binding.
\<close>

theorem handleStop_namespace_isolation:
  assumes "extractNamespace (msg_Subject msg) = Inr ns"
    and "unmarshal (msg_Data msg) = Inr request"
    and "LookupMachine m (WorkloadId request) = Some vm"
    and "heap m vm = Some r"
    and "namespace r \<noteq> ns"
    and "LookupMachine m0 (WorkloadId request) = None"
  shows "handleStop T unmarshal validate stopMachine msg m
           = (Return [respondFail T ''No such workload''], m)
       \<and> handleStop T unmarshal validate stopMachine msg m0
           = (Return [respondFail T ''No such workload''], m0)"
  using assms by (simp add: handleStop_def)

theorem handleStop_namespace_isolation_witness:
  "handleStop ''stop_response'' (\<lambda>d. Inr \<lparr>WorkloadId = d\<rparr>) (\<lambda>q c. None) (\<lambda>i s. (None, s))
      \<lparr>msg_Subject = ''$NEX.STOP.B.node1'', msg_Data = ''vm1'', msg_Header = Map.empty\<rparr> deployed_node
     = (Return [respondFail ''stop_response'' ''No such workload''], deployed_node)
   \<and> handleStop ''stop_response'' (\<lambda>d. Inr \<lparr>WorkloadId = d\<rparr>) (\<lambda>q c. None) (\<lambda>i s. (None, s))
      \<lparr>msg_Subject = ''$NEX.STOP.B.node1'', msg_Data = ''vm1'', msg_Header = Map.empty\<rparr>
      (deployed_node\<lparr>allVMs := Map.empty\<rparr>)
     = (Return [respondFail ''stop_response'' ''No such workload''], deployed_node\<lparr>allVMs := Map.empty\<rparr>)"
  using handleStop_namespace_isolation [of
      "\<lparr>msg_Subject = ''$NEX.STOP.B.node1'', msg_Data = ''vm1'', msg_Header = Map.empty\<rparr>" "''B''"
      "\<lambda>d. Inr \<lparr>WorkloadId = d\<rparr>" "\<lparr>WorkloadId = ''vm1''\<rparr>" deployed_node 0
      "warm_vm\<lparr>namespace := ''A'',
      deployRequest := Some \<lparr>Namespace = Some ''A'', WorkloadName = Some ''echo'',
        WorkloadType = Some ''v8'', TriggerSubjects = [], TotalBytes = 10\<rparr>\<rparr>"
      "deployed_node\<lparr>allVMs := Map.empty\<rparr>" "''stop_response''" "\<lambda>q c. None" "\<lambda>i s. (None, s)"]
    ns_B
  by (simp add: deployed_node_def one_vm_node_def LookupMachine_def warm_vm_def)

subsection \<open>The handshake\<close>

lemma replies_append [simp]: "replies (xs @ ys) = replies xs @ replies ys"
  by (induction xs rule: replies.induct) simp_all

text \<open>
  C9. A handshake message whose machine id is not in \<^verbatim>\<open>allVMs\<close> is ignored: the handler
  sends no reply and the handshake table stays as it was. The table changes at an id only
  if that id is the message's machine id, it is registered, the message decoded, and
  \<^verbatim>\<open>msg.Respond\<close> of the empty response returned no error; the entry is then the current
  time, and the reply is the one reply sent. Conversely such a message does get its entry.
\<close>

theorem handleHandshake_records_only_registered:
  assumes "handleHandshake unmarshal resp respond now msg m = (res, m')"
    and "unmarshal (msg_Data msg) = (err, req)"
  shows "(MachineID req = Some machineID \<and> allVMs m machineID = None \<longrightarrow>
            handshakes m' = handshakes m \<and> replies (trace m') = replies (trace m))
       \<and> (map_of (handshakes m') k \<noteq> map_of (handshakes m) k \<longrightarrow>
            MachineID req = Some k \<and> allVMs m k \<noteq> None \<and> err = None \<and> respond resp = None
            \<and> replies (trace m') = replies (trace m) @ [resp] \<and> map_of (handshakes m') k = Some now)
       \<and> (MachineID req = Some machineID \<and> hs_Message req \<noteq> None \<and> err = None
            \<and> allVMs m machineID \<noteq> None \<and> respond resp = None \<longrightarrow>
            map_of (handshakes m') machineID = Some now)"
  using assms
  by (auto simp: handleHandshake_def Let_def update_conv' split: option.splits if_splits)

theorem handleHandshake_records_only_registered_witness:
  "handshakes (snd (handleHandshake hello_ghost ''{}'' (\<lambda>b. None) ''2024-01-01T00:00:00Z'' hello_msg one_vm_node))
     = handshakes one_vm_node
   \<and> replies (trace (snd (handleHandshake hello_ghost ''{}'' (\<lambda>b. None) ''2024-01-01T00:00:00Z'' hello_msg one_vm_node)))
     = replies (trace one_vm_node)
   \<and> replies (trace (snd (handleHandshake hello_vm1 ''{}'' (\<lambda>b. None) ''2024-01-01T00:00:00Z'' hello_msg one_vm_node)))
     = replies (trace one_vm_node) @ [''{}'']
   \<and> map_of (handshakes (snd (handleHandshake hello_vm1 ''{}'' (\<lambda>b. None) ''2024-01-01T00:00:00Z'' hello_msg one_vm_node))) ''vm1''
     = Some ''2024-01-01T00:00:00Z''"
proof -
  let ?ghost = "handleHandshake hello_ghost ''{}'' (\<lambda>b. None) ''2024-01-01T00:00:00Z'' hello_msg one_vm_node"
  let ?vm1 = "handleHandshake hello_vm1 ''{}'' (\<lambda>b. None) ''2024-01-01T00:00:00Z'' hello_msg one_vm_node"
  have g: "allVMs one_vm_node ''ghost'' = None" by (simp add: one_vm_node_def)
  have v: "map_of (handshakes (snd ?vm1)) ''vm1'' \<noteq> map_of (handshakes one_vm_node) ''vm1''"
    by (simp add: handleHandshake_def hello_vm1_def one_vm_node_def Let_def)
  from handleHandshake_records_only_registered [of hello_ghost "''{}''" "\<lambda>b. None"
      "''2024-01-01T00:00:00Z''" hello_msg one_vm_node "fst ?ghost" "snd ?ghost" None
      "\<lparr>MachineID = Some ''ghost'', hs_Message = Some ''hello''\<rparr>" "''ghost''" "''ghost''"] g
  have 1: "handshakes (snd ?ghost) = handshakes one_vm_node
           \<and> replies (trace (snd ?ghost)) = replies (trace one_vm_node)"
    by (simp add: hello_ghost_def)
  from handleHandshake_records_only_registered [of hello_vm1 "''{}''" "\<lambda>b. None"
      "''2024-01-01T00:00:00Z''" hello_msg one_vm_node "fst ?vm1" "snd ?vm1" None
      "\<lparr>MachineID = Some ''vm1'', hs_Message = Some ''hello''\<rparr>" "''vm1''" "''vm1''"] v
  have 2: "replies (trace (snd ?vm1)) = replies (trace one_vm_node) @ [''{}'']
           \<and> map_of (handshakes (snd ?vm1)) ''vm1'' = Some ''2024-01-01T00:00:00Z''"
    by (simp add: hello_vm1_def)
  from 1 2 show ?thesis by simp
qed

lemma awaitLoop_quiet_rounds:
  assumes "\<forall>q \<in> set pre. \<not> stopping (poll_m q) \<and> poll_now q \<le> timeoutAt \<and> map_of (handshakes (poll_m q)) vmid = None"
  shows "awaitLoop vmid timeoutAt False (pre @ p # post) = awaitLoop vmid timeoutAt False (p # post)"
  using assms by (induction pre) (simp_all add: Let_def)

text \<open>
  C1, as the code has it. The timeout of a new manager is 5 s. Take a watchdog whose rounds
  before the deadline all see a manager that is not stopping and a table without the vmid.
  If its next round comes after the deadline and sees a manager that is not stopping, the
  watchdog returns in that round: with an empty table it logs the timeout and the failed
  first handshake and cancels the node; with any entry in the table it logs the timeout and
  does nothing else. If its next round sees a manager that is stopping, the watchdog returns
  without a log line and without cancelling.
\<close>

theorem awaitHandshake_first_failure_fatal:
  assumes "\<forall>q \<in> set pre. \<not> stopping (poll_m q) \<and> poll_now q \<le> now + handshakeTimeout m0
                           \<and> map_of (handshakes (poll_m q)) vmid = None"
  shows "(\<not> stopping (poll_m p) \<and> now + handshakeTimeout m0 < poll_now p \<longrightarrow>
            awaitHandshake m0 now vmid (pre @ p # post)
              = Some (if handshakes (poll_m p) = []
                      then cancel (emit (Log Error ''First handshake failed, shutting down to avoid inconsistent behavior'')
                             (emit (Log Error ''Did not receive NATS handshake from agent within timeout.'') (poll_m p)))
                      else emit (Log Error ''Did not receive NATS handshake from agent within timeout.'') (poll_m p)))
       \<and> (stopping (poll_m p) \<longrightarrow> awaitHandshake m0 now vmid (pre @ p # post) = Some (poll_m p))
       \<and> (\<forall>m. NewMachineManager poolSize issuers tel = Some m \<longrightarrow> handshakeTimeout m = 5000000000)"
proof (intro conjI impI)
  assume "\<not> stopping (poll_m p) \<and> now + handshakeTimeout m0 < poll_now p"
  then show "awaitHandshake m0 now vmid (pre @ p # post)
              = Some (if handshakes (poll_m p) = []
                      then cancel (emit (Log Error ''First handshake failed, shutting down to avoid inconsistent behavior'')
                             (emit (Log Error ''Did not receive NATS handshake from agent within timeout.'') (poll_m p)))
                      else emit (Log Error ''Did not receive NATS handshake from agent within timeout.'') (poll_m p))"
    unfolding awaitHandshake_def awaitLoop_quiet_rounds [OF assms] by (simp add: Let_def)
next
  assume "stopping (poll_m p)"
  then show "awaitHandshake m0 now vmid (pre @ p # post) = Some (poll_m p)"
    unfolding awaitHandshake_def awaitLoop_quiet_rounds [OF assms] by (simp add: Let_def)
next
  show "\<forall>m. NewMachineManager poolSize issuers tel = Some m \<longrightarrow> handshakeTimeout m = 5000000000"
    by (auto simp: NewMachineManager_def defaultHandshakeTimeoutMillis_def Millisecond_def
        split: option.splits)
qed

theorem awaitHandshake_first_failure_fatal_witness:
  "awaitHandshake one_vm_node 0 ''vm1'' polls_silent
     = Some (cancel (emit (Log Error ''First handshake failed, shutting down to avoid inconsistent behavior'')
               (emit (Log Error ''Did not receive NATS handshake from agent within timeout.'') one_vm_node)))
   \<and> awaitHandshake one_vm_node 0 ''vm1'' polls_other_vm
     = Some (emit (Log Error ''Did not receive NATS handshake from agent within timeout.'')
               (one_vm_node\<lparr>handshakes := [(''vm0'', ''2024-01-01T00:00:00Z'')]\<rparr>))"
  using awaitHandshake_first_failure_fatal [of "[\<lparr>poll_now = 1000000000, poll_m = one_vm_node\<rparr>]"
      0 one_vm_node "''vm1''" "\<lparr>poll_now = 6000000000, poll_m = one_vm_node\<rparr>" "[]"]
    awaitHandshake_first_failure_fatal [of "[\<lparr>poll_now = 1000000000, poll_m = one_vm_node\<rparr>]"
      0 one_vm_node "''vm1''"
      "\<lparr>poll_now = 6000000000, poll_m = one_vm_node\<lparr>handshakes := [(''vm0'', ''2024-01-01T00:00:00Z'')]\<rparr>\<rparr>" "[]"]
  by (simp add: polls_silent_def polls_other_vm_def one_vm_node_def stopping_def)

text \<open>
  The specification states the rule without a condition on the manager, but a watchdog that finds
  the manager stopping leaves its loop without a log line and without cancelling, also
  after the deadline and with an empty table.
\<close>

theorem awaitHandshake_stopping_counterexample:
  "awaitHandshake one_vm_node 0 ''vm1'' polls_stopping = Some (one_vm_node\<lparr>closing := 1\<rparr>)
   \<and> handshakes (one_vm_node\<lparr>closing := 1\<rparr>) = []
   \<and> 0 + handshakeTimeout one_vm_node < 6000000000
   \<and> \<not> ctxDone (one_vm_node\<lparr>closing := 1\<rparr>)
   \<and> trace (one_vm_node\<lparr>closing := 1\<rparr>) = []"
  by (simp add: awaitHandshake_def polls_stopping_def one_vm_node_def stopping_def)

subsection \<open>Deploying a workload\<close>


lemma deploy_sent_simps [simp]:
  "allVMs (deploy_sent m vm r0 request ns bytes) = allVMs m"
  "heap (deploy_sent m vm r0 request ns bytes) = (heap m)(vm \<mapsto> r0\<lparr>deployRequest := Some request, namespace := ns\<rparr>)"
  "telemetry (deploy_sent m vm r0 request ns bytes) = telemetry m"
  by (simp_all add: deploy_sent_def)





lemma drainAll_frame [simp]:
  "heap (drainAll env vmID subs m) = heap m"
  "allVMs (drainAll env vmID subs m) = allVMs m"
  "stopMutex (drainAll env vmID subs m) = stopMutex m"
  "telemetry (drainAll env vmID subs m) = telemetry m"
  by (induction subs arbitrary: m) (simp_all add: Let_def split: option.splits)

lemma StopMachine_deployed:
  assumes "allVMs m vmID = Some vm" and "stopMutex m vmID = Some u" and "heap m vm = Some r"
    and "deployRequest r = Some req" and "WorkloadType req = Some wt"
  shows "fst (StopMachine env vmID True m) = Return None"
    and "allVMs (snd (StopMachine env vmID True m)) vmID = None"
    and "telemetry (snd (StopMachine env vmID True m))
           = stop_vm_counters r (stop_workload_counters r req wt (telemetry m))"
    and "InternalRequest (''agentint.'' @ vmmID r @ ''.undeploy'') [] \<in> set (trace (snd (StopMachine env vmID True m)))"
  using assms by (simp_all add: StopMachine_def Let_def split: sum.splits)

lemma stop_decrements_workloadCounter:
  "workloadCounter (stop_vm_counters r (stop_workload_counters r req wt tel))
      \<lparr>attr_workload_type = Some wt, attr_namespace = Some (namespace r)\<rparr>
   = workloadCounter tel \<lparr>attr_workload_type = Some wt, attr_namespace = Some (namespace r)\<rparr> - 1"
  by (simp add: stop_vm_counters_def stop_workload_counters_def Add_def Let_def)

lemma subscribeAll_failure:
  assumes "\<forall>s \<in> set pre. \<exists>sub. nc_Subscribe env s = Inr sub" and "nc_Subscribe env tsub = Inl err"
    and "WorkloadType request = Some wt"
  shows "\<exists>m1. allVMs m1 = allVMs m \<and> stopMutex m1 = stopMutex m \<and> heap m1 = heap m
              \<and> telemetry m1 = telemetry m
              \<and> subscribeAll env vmID request (pre @ tsub # post) m
                  = (case StopMachine env vmID True m1 of
                       (a, m2) \<Rightarrow> (case a of Return i \<Rightarrow> (Return (Some err), m2) | Panic p \<Rightarrow> (Panic p, m2)))"
  using assms
proof (induction pre arbitrary: m)
  case Nil
  have "subscribeAll env vmID request (tsub # post) m
          = (case StopMachine env vmID True
                    (emit (Log Error ''Failed to create trigger subject subscription for deployed workload'') m) of
                       (a, m2) \<Rightarrow> (case a of Return i \<Rightarrow> (Return (Some err), m2) | Panic p \<Rightarrow> (Panic p, m2)))"
    using Nil by (simp add: Let_def split: prod.splits result.splits)
  then show ?case
    by (intro exI [of _ "emit (Log Error ''Failed to create trigger subject subscription for deployed workload'') m"]) simp
next
  case (Cons s pre)
  then obtain sub where s: "nc_Subscribe env s = Inr sub" by auto
  let ?m3 = "(emit (Log Info ''Created trigger subject subscription for deployed workload'')
                (emit (Subscribed s) m))
              \<lparr>vmsubz := (vmsubz m)(vmID \<mapsto> (case vmsubz m vmID of None \<Rightarrow> [] | Some subs \<Rightarrow> subs) @ [sub])\<rparr>"
  from Cons.prems have p: "\<forall>s \<in> set pre. \<exists>sub. nc_Subscribe env s = Inr sub" by simp
  from Cons.IH [OF p Cons.prems(2) Cons.prems(3), of ?m3]
  obtain m1 where "allVMs m1 = allVMs ?m3" "stopMutex m1 = stopMutex ?m3" "heap m1 = heap ?m3"
      "telemetry m1 = telemetry ?m3"
      "subscribeAll env vmID request (pre @ tsub # post) ?m3
                  = (case StopMachine env vmID True m1 of
                       (a, m2) \<Rightarrow> (case a of Return i \<Rightarrow> (Return (Some err), m2) | Panic p \<Rightarrow> (Panic p, m2)))"
    by blast
  then show ?case using s Cons.prems(3)
    by (intro exI [of _ m1]) (simp add: Let_def)
qed

text \<open>
  C3. What the code does when a trigger subscription fails, for every deployment on a
  registered VM that the agent has accepted: the subscription's error is returned, the VM
  is stopped with \<^verbatim>\<open>undeploy=true\<close> (the undeploy request is sent and the VM leaves the
  registry), and the workload counter of the workload's type and namespace ends one below
  its value before the deployment. \<^verbatim>\<open>StopMachine\<close> takes the one off because the request is
  already bound to the VM; \<^verbatim>\<open>DeployWorkload\<close> returns before the lines that would have
  added it.
\<close>

theorem DeployWorkload_subscription_failure:
  assumes "json_Marshal env request = Inr bytes"
    and "heap m vm = Some r0" and "allVMs m (vmmID r0) = Some vm" and "stopMutex m (vmmID r0) = Some u"
    and "Namespace request = Some ns" and "WorkloadType request = Some wt"
    and "ncInternal_Request env (''agentint.'' @ vmmID r0 @ ''.deploy'') bytes = Inr resp"
    and "json_Unmarshal env resp = Inr dr" and "Accepted dr"
    and "SupportsTriggerSubjects env request"
    and "TriggerSubjects request = pre @ tsub # post"
    and "\<forall>s \<in> set pre. \<exists>sub. nc_Subscribe env s = Inr sub"
    and "nc_Subscribe env tsub = Inl err"
  shows "fst (DeployWorkload env vm request m) = Return (Some err)
       \<and> allVMs (snd (DeployWorkload env vm request m)) (vmmID r0) = None
       \<and> InternalRequest (''agentint.'' @ vmmID r0 @ ''.undeploy'') []
            \<in> set (trace (snd (DeployWorkload env vm request m)))
       \<and> workloadCounter (telemetry (snd (DeployWorkload env vm request m)))
              \<lparr>attr_workload_type = Some wt, attr_namespace = Some ns\<rparr>
          = workloadCounter (telemetry m) \<lparr>attr_workload_type = Some wt, attr_namespace = Some ns\<rparr> - 1"
proof -
  let ?r = "r0\<lparr>deployRequest := Some request, namespace := ns\<rparr>"
  let ?m4 = "emit (InternalRequest (''agentint.'' @ vmmID r0 @ ''.deploy'') bytes)
               ((emit (Log Debug ''NATS internal connection status'') m)\<lparr>heap := (heap m)(vm \<mapsto> ?r)\<rparr>)"
  from subscribeAll_failure [OF assms(12) assms(13) assms(6), where vmID = "vmmID r0" and post = post and m = ?m4]
  obtain m1 where m1: "allVMs m1 = allVMs ?m4" "stopMutex m1 = stopMutex ?m4" "heap m1 = heap ?m4"
      "telemetry m1 = telemetry ?m4"
    and sub: "subscribeAll env (vmmID r0) request (pre @ tsub # post) ?m4
                  = (case StopMachine env (vmmID r0) True m1 of
                       (a, m2) \<Rightarrow> (case a of Return i \<Rightarrow> (Return (Some err), m2) | Panic p \<Rightarrow> (Panic p, m2)))"
    by blast
  have a: "allVMs m1 (vmmID r0) = Some vm" "stopMutex m1 (vmmID r0) = Some u" "heap m1 vm = Some ?r"
    using m1 assms(3,4) by simp_all
  have d: "deployRequest ?r = Some request" by simp
  note stop = StopMachine_deployed [OF a d assms(6), where env = env]
  obtain m2 where m2: "StopMachine env (vmmID r0) True m1 = (Return None, m2)"
    using stop(1) by (cases "StopMachine env (vmmID r0) True m1") simp
  have res: "DeployWorkload env vm request m = (Return (Some err), m2)"
    using assms(1,2,5,7,8,9,10,11) sub m2
    by (simp add: DeployWorkload_def Let_def)
  have tel: "telemetry m2 = stop_vm_counters ?r (stop_workload_counters ?r request wt (telemetry m))"
    using stop(3) m2 m1(4) by simp
  have "workloadCounter (telemetry m2) \<lparr>attr_workload_type = Some wt, attr_namespace = Some (namespace ?r)\<rparr>
          = workloadCounter (telemetry m) \<lparr>attr_workload_type = Some wt, attr_namespace = Some (namespace ?r)\<rparr> - 1"
    unfolding tel by (rule stop_decrements_workloadCounter)
  moreover have "allVMs m2 (vmmID r0) = None" using stop(2) m2 by simp
  moreover have "InternalRequest (''agentint.'' @ vmmID r0 @ ''.undeploy'') [] \<in> set (trace m2)"
    using stop(4) m2 by simp
  ultimately show ?thesis by (simp add: res)
qed
theorem DeployWorkload_subscription_failure_witness:
  "fst (DeployWorkload s4_env 0 s4_request one_vm_node)
     = Return (Some (GoError False ''nats: subscription to t.b failed''))
   \<and> allVMs (snd (DeployWorkload s4_env 0 s4_request one_vm_node)) ''vm1'' = None
   \<and> InternalRequest ''agentint.vm1.undeploy'' [] \<in> set (trace (snd (DeployWorkload s4_env 0 s4_request one_vm_node)))
   \<and> workloadCounter (telemetry one_vm_node) \<lparr>attr_workload_type = Some ''v8'', attr_namespace = Some ''ns''\<rparr> = 0
   \<and> workloadCounter (telemetry (snd (DeployWorkload s4_env 0 s4_request one_vm_node)))
        \<lparr>attr_workload_type = Some ''v8'', attr_namespace = Some ''ns''\<rparr> = - 1"
  using DeployWorkload_subscription_failure [of s4_env s4_request "''request''" one_vm_node 0 warm_vm "()"
      "''ns''" "''v8''" "''reply''" "\<lparr>Accepted = True, Message = None\<rparr>" "[''t.a'']" "''t.b''" "[]"
      "GoError False ''nats: subscription to t.b failed''"]
  by (simp add: s4_env_def quiet_env_def s4_request_def one_vm_node_def warm_vm_def zero_telemetry_def)

subsection \<open>The trigger handler\<close>

text \<open>
  C7. What the trigger handler sends: the internal message goes to
  \<^verbatim>\<open>agentint.<vmid>.trigger\<close>, carries the payload of the inbound message unchanged and has
  exactly one header, \<^verbatim>\<open>x-nex-trigger-subject\<close>, set to the inbound subject. The propagator
  is applied to the headers of the inbound message, not to those of the internal one:
  whatever it injects, the internal message does not carry it.
\<close>

theorem triggerHandler_request_message:
  assumes "triggerHandler_request Inject m vm request msg = Return (intmsg, msg')"
  shows "\<exists>r. heap m vm = Some r
           \<and> msg_Subject intmsg = ''agentint.'' @ vmmID r @ ''.trigger''
           \<and> msg_Data intmsg = msg_Data msg
           \<and> msg_Header intmsg = [nexTriggerSubject \<mapsto> [msg_Subject msg]]
           \<and> msg' = msg\<lparr>msg_Header := Inject (msg_Header msg)\<rparr>"
  using assms
  by (auto simp: triggerHandler_request_def NewMsg_def Header_Add_def Let_def split: option.splits)

theorem triggerHandler_request_message_witness:
  "triggerHandler_request w3c_inject deployed_node 0 plain_request trigger_msg
     = Return (\<lparr>msg_Subject = ''agentint.vm1.trigger'', msg_Data = ''payload'',
                 msg_Header = [''x-nex-trigger-subject'' \<mapsto> [''t.a'']]\<rparr>,
               trigger_msg\<lparr>msg_Header := [''traceparent'' \<mapsto> [''00-0af7651916cd43dd8448eb211c80319c-b7ad6b7169203331-01'']]\<rparr>)
   \<and> [''x-nex-trigger-subject'' \<mapsto> [''t.a'']] ''traceparent'' = (None :: string list option)"
proof -
  obtain intmsg msg' where e: "triggerHandler_request w3c_inject deployed_node 0 plain_request trigger_msg = Return (intmsg, msg')"
    by (simp add: triggerHandler_request_def plain_request_def deployed_node_def one_vm_node_def Let_def)
  from triggerHandler_request_message [OF e]
  have "intmsg = \<lparr>msg_Subject = ''agentint.vm1.trigger'', msg_Data = ''payload'',
                 msg_Header = [''x-nex-trigger-subject'' \<mapsto> [''t.a'']]\<rparr>
        \<and> msg' = trigger_msg\<lparr>msg_Header := [''traceparent'' \<mapsto> [''00-0af7651916cd43dd8448eb211c80319c-b7ad6b7169203331-01'']]\<rparr>"
    by (cases intmsg) (auto simp: deployed_node_def one_vm_node_def warm_vm_def trigger_msg_def w3c_inject_def nexTriggerSubject_def)
  with e show ?thesis by simp
qed

subsection \<open>Manager shutdown\<close>

lemma removeSockets_trace:
  "trace (removeSockets dir pid m)
     = trace m @ map (\<lambda>name. OsRemove (''tmp/'' @ name))
                   (filter (\<lambda>name. Contains name (''.firecracker.sock-'' @ Itoa pid @ ''-'')) dir)"
  by (induction dir arbitrary: m) (simp_all add: path_Join_tmp_def)

lemma Itoa_42: "Itoa 42 = ''42''"
  by (simp add: Itoa_def string_of_nat.simps [of 42] string_of_nat.simps [of 4] digit_def)

text \<open>
  C8. What \<^verbatim>\<open>cleanSockets\<close> removes: for every entry of the temp directory whose name
  contains \<^verbatim>\<open>.firecracker.sock-<pid>-\<close> anywhere, it calls \<^verbatim>\<open>os.Remove\<close> with the relative
  path \<^verbatim>\<open>tmp/<name>\<close>, and it removes nothing else. And a \<^verbatim>\<open>Stop\<close> that finds the closing
  flag set only counts the flag up and returns nil.
\<close>

theorem cleanSockets_relative_paths:
  "trace (cleanSockets dir err pid m)
     = trace m @ (case err of Some e \<Rightarrow> [Log Error ''Failed to read temp directory''] | None \<Rightarrow> [])
         @ map (\<lambda>name. OsRemove (''tmp/'' @ name))
             (filter (\<lambda>name. Contains name (''.firecracker.sock-'' @ Itoa pid @ ''-'')) dir)
   \<and> (closing m \<noteq> 0 \<longrightarrow> Stop env order dir err pid m = (Return None, m\<lparr>closing := closing m + 1\<rparr>))"
  by (simp add: cleanSockets_def removeSockets_trace Stop_def Let_def split: option.splits)

theorem cleanSockets_relative_paths_witness:
  "removed_files ''/home/nex'' (trace (cleanSockets temp_dir None 42 one_vm_node))
     = [''/home/nex/tmp/.firecracker.sock-42-abc'', ''/home/nex/tmp/x.firecracker.sock-42-y'']
   \<and> ''/tmp/.firecracker.sock-42-abc''
        \<notin> set (removed_files ''/home/nex'' (trace (cleanSockets temp_dir None 42 one_vm_node)))
   \<and> Stop quiet_env [] temp_dir None 42 (one_vm_node\<lparr>closing := 1\<rparr>)
        = (Return None, one_vm_node\<lparr>closing := 2\<rparr>)"
proof -
  have t: "trace (cleanSockets temp_dir None 42 one_vm_node)
           = [OsRemove ''tmp/.firecracker.sock-42-abc'', OsRemove ''tmp/x.firecracker.sock-42-y'']"
    using cleanSockets_relative_paths [of temp_dir None 42 one_vm_node]
    by (simp add: temp_dir_def Itoa_42 Contains_def sublist_code one_vm_node_def)
  have s: "Stop quiet_env [] temp_dir None 42 (one_vm_node\<lparr>closing := 1\<rparr>)
        = (Return None, one_vm_node\<lparr>closing := 2\<rparr>)"
    using cleanSockets_relative_paths [of temp_dir None 42 "one_vm_node\<lparr>closing := 1\<rparr>" quiet_env "[]"]
    by (simp add: one_vm_node_def)
  show ?thesis by (simp add: t s resolve_def)
qed

subsection \<open>The warm pool\<close>

lemma pool_emit [simp]: "pool (emit e m) = pool m"
  by (simp add: pool_def)

lemma pool_drainAll [simp]: "pool (drainAll env vmID subs m) = pool m"
  by (induction subs arbitrary: m) (simp_all add: Let_def split: option.splits)

lemma pool_StopMachine [simp]: "pool (snd (StopMachine env vmID undeploy m)) = pool m"
proof -
  have a: "\<And>x. pool (x\<lparr>telemetry := tel\<rparr>) = pool x" for tel by (simp add: pool_def)
  have b: "\<And>x. pool (x\<lparr>allVMs := a, stopMutex := s, vmsubz := v\<rparr>) = pool x" for a s v by (simp add: pool_def)
  show ?thesis
    by (simp add: StopMachine_def Let_def a b split: option.splits sum.splits)
qed



lemma snd_case_result [simp]:
  "snd (case x of (a, m2) \<Rightarrow> (case a of Return i \<Rightarrow> (g i, m2) | Panic p \<Rightarrow> (h p, m2))) = snd x"
  by (auto split: prod.splits result.splits)

lemma pool_fields [simp]:
  "pool (m\<lparr>telemetry := tel\<rparr>) = pool m"
  "pool (m\<lparr>vmsubz := v\<rparr>) = pool m"
  "pool (m\<lparr>heap := h\<rparr>) = pool m"
  "pool (m\<lparr>allVMs := a\<rparr>) = pool m"
  "pool (m\<lparr>stopMutex := s\<rparr>) = pool m"
  "pool (m\<lparr>handshakes := hs\<rparr>) = pool m"
  "pool (m\<lparr>closing := c\<rparr>) = pool m"
  by (simp_all add: pool_def)

lemma pool_subscribeAll [simp]: "pool (snd (subscribeAll env vmID request subs m)) = pool m"
proof (induction subs arbitrary: m)
  case Nil
  then show ?case by simp
next
  case (Cons s subs)
  show ?case
  proof (cases "nc_Subscribe env s")
    case (Inl err)
    then show ?thesis
      by (cases "WorkloadType request") (simp_all add: Let_def)
  next
    case (Inr sub)
    then show ?thesis using Cons.IH
      by (cases "WorkloadType request") (simp_all add: Let_def)
  qed
qed


lemma pool_subscribeAll_eq: "subscribeAll env vmID request subs m = (res, m') \<Longrightarrow> pool m' = pool m"
  using pool_subscribeAll [of env vmID request subs m] by simp

lemma pool_StopMachine_eq: "StopMachine env vmID undeploy m = (res, m') \<Longrightarrow> pool m' = pool m"
  using pool_StopMachine [of env vmID undeploy m] by simp

lemma pool_DeployWorkload [simp]: "pool (snd (DeployWorkload env vm request m)) = pool m"
  by (auto simp: DeployWorkload_def Let_def
      split: sum.splits option.splits prod.splits result.splits if_splits
      dest!: pool_subscribeAll_eq pool_StopMachine_eq)

lemma pool_handleHandshake [simp]:
  "pool (snd (handleHandshake unmarshal resp respond now msg m)) = pool m"
  by (simp add: handleHandshake_def Let_def split: prod.splits option.splits)

lemma pool_removeSockets [simp]: "pool (removeSockets dir pid m) = pool m"
  by (induction dir arbitrary: m) simp_all

lemma pool_cleanSockets [simp]: "pool (cleanSockets dir err pid m) = pool m"
  by (simp add: cleanSockets_def split: option.splits)

lemma pool_stopAll [simp]: "pool (snd (stopAll env order m)) = pool m"
proof (induction order arbitrary: m)
  case Nil
  then show ?case by simp
next
  case (Cons vmID rest)
  show ?case
    using Cons.IH
    by (auto split: prod.splits result.splits option.splits dest!: pool_StopMachine_eq)
qed


lemma pool_ok_pool: "pool m' = pool m \<Longrightarrow> pool_ok m' = pool_ok m"
  by (simp add: pool_def pool_ok_def)

lemma pool_stopAll_eq: "stopAll env order m = (res, m') \<Longrightarrow> pool m' = pool m"
  using pool_stopAll [of env order m] by simp

lemma pool_closed [simp]:
  "buf c = buf (warmVMs m) \<Longrightarrow> cap c = cap (warmVMs m) \<Longrightarrow> pool (m\<lparr>warmVMs := c\<rparr>) = pool m"
  by (simp add: pool_def)

lemma warmVMs_emit_closing [simp]:
  "buf (warmVMs (emit e m)) = buf (warmVMs m)" "cap (warmVMs (emit e m)) = cap (warmVMs m)"
  by simp_all

lemma pool_Stop [simp]: "pool (snd (Stop env order dir err pid m)) = pool m"
  by (auto simp: Stop_def Let_def chan_close_def split: prod.splits result.splits
      dest!: pool_stopAll_eq)


lemma pool_Start_step_LoopHead: "pool (snd (Start_step created metadata LoopHead m)) = pool m"
  by (simp add: Start_step_def Let_def split: sum.splits option.splits prod.splits)

lemma pool_ok_Start_step_Sending:
  "pool_ok m \<Longrightarrow> pool_ok (snd (Start_step created metadata (Sending vm) m))"
  by (simp add: Start_step_def chan_send_def pool_ok_def)

lemma pool_ok_Start_step:
  "pool_ok m \<Longrightarrow> pool_ok (snd (Start_step created metadata at m))"
proof (cases at)
  case LoopHead
  assume "pool_ok m"
  with LoopHead show ?thesis
    using pool_ok_pool [OF pool_Start_step_LoopHead [of created metadata m]] by simp
next
  case (Sending vm)
  assume "pool_ok m"
  with Sending show ?thesis by (simp add: pool_ok_Start_step_Sending)
next
  case Returned
  assume "pool_ok m"
  with Returned show ?thesis by (simp add: Start_step_def)
qed

lemma pool_ok_step: "pool_ok (snd s) \<Longrightarrow> pool_ok (snd (step env e s))"
proof (cases s)
  case (Pair at m)
  assume ok: "pool_ok (snd s)"
  show ?thesis
  proof (cases e)
    case (Maintainer created metadata)
    with Pair ok show ?thesis by (simp add: pool_ok_Start_step)
  next
    case Receive
    with Pair ok show ?thesis
      by (auto simp: chan_recv_def pool_ok_def split: list.splits)
  next
    case (Deploy vm request)
    with Pair ok show ?thesis
      using pool_ok_pool [OF pool_DeployWorkload [of env vm request m]] by simp
  next
    case (StopVM vmID undeploy)
    with Pair ok show ?thesis
      using pool_ok_pool [OF pool_StopMachine [of env vmID undeploy m]] by simp
  next
    case (Handshake decoded responded now)
    with Pair ok show ?thesis
      using pool_ok_pool [OF pool_handleHandshake [of "\<lambda>d. decoded" "[]" "\<lambda>b. responded" now
          "\<lparr>msg_Subject = ''agentint.handshake'', msg_Data = [], msg_Header = Map.empty\<rparr>" m]]
      by simp
  next
    case (Shutdown_manager order dir err pid)
    with Pair ok show ?thesis
      using pool_ok_pool [OF pool_Stop [of env order dir err pid m]] by simp
  qed
qed

lemma pool_ok_run: "pool_ok (snd s) \<Longrightarrow> pool_ok (snd (run env evs s))"
  by (induction evs arbitrary: s) (simp_all add: pool_ok_step)


lemma pool_ok_new:
  "NewMachineManager poolSize issuers tel = Some m0 \<Longrightarrow> pool_ok m0 \<and> MachinePoolSize m0 = poolSize"
  by (auto simp: NewMachineManager_def make_chan_def pool_ok_def split: if_splits)

lemma size_Start_step [simp]: "MachinePoolSize (snd (Start_step created metadata at m)) = MachinePoolSize m"
  by (simp add: Start_step_def Let_def split: pc.splits sum.splits option.splits prod.splits send_result.splits)

lemma size_pool: "pool m' = pool m \<Longrightarrow> MachinePoolSize m' = MachinePoolSize m"
  by (simp add: pool_def)

lemma size_step: "MachinePoolSize (snd (step env e s)) = MachinePoolSize (snd s)"
proof (cases s)
  case (Pair at m)
  show ?thesis
  proof (cases e)
    case (Maintainer created metadata)
    with Pair show ?thesis by simp
  next
    case Receive
    with Pair show ?thesis by (simp add: chan_recv_def split: list.splits)
  next
    case (Deploy vm request)
    with Pair show ?thesis
      using size_pool [OF pool_DeployWorkload [of env vm request m]] by simp
  next
    case (StopVM vmID undeploy)
    with Pair show ?thesis
      using size_pool [OF pool_StopMachine [of env vmID undeploy m]] by simp
  next
    case (Handshake decoded responded now)
    with Pair show ?thesis
      using size_pool [OF pool_handleHandshake [of "\<lambda>d. decoded" "[]" "\<lambda>b. responded" now
          "\<lparr>msg_Subject = ''agentint.handshake'', msg_Data = [], msg_Header = Map.empty\<rparr>" m]]
      by simp
  next
    case (Shutdown_manager order dir err pid)
    with Pair show ?thesis
      using size_pool [OF pool_Stop [of env order dir err pid m]] by simp
  qed
qed

lemma size_run: "MachinePoolSize (snd (run env evs s)) = MachinePoolSize (snd s)"
  by (induction evs arbitrary: s) (simp_all add: size_step)

lemma fresh: "NewMachineManager 1 [] zero_telemetry = Some fresh_node"
  by (simp add: NewMachineManager_def make_chan_def fresh_node_def defaultHandshakeTimeoutMillis_def Millisecond_def)

text \<open>
  C5. In every run of a new manager (steps of the maintainer, receives from the pool,
  deployments, stops, handshakes and shutdowns, in any order) the pool channel holds at most
  \<^verbatim>\<open>MachinePoolSize\<close> records. A maintainer that finds the pool at capacity at the head of its
  loop sleeps and makes no VM. A send to a full open channel blocks, and a maintainer at its
  send with the pool full stays there with its record, the manager unchanged.
\<close>

theorem warm_pool_bound:
  assumes "NewMachineManager poolSize issuers tel = Some m0"
  shows "int (length (buf (warmVMs (snd (run env evs (LoopHead, m0)))))) \<le> poolSize
       \<and> (\<forall>m created metadata. \<not> stopping m \<and> \<not> ctxDone m
              \<and> int (length (buf (warmVMs m))) = MachinePoolSize m \<longrightarrow>
            Start_step created metadata LoopHead m = (LoopHead, emit Sleep m))
       \<and> (\<forall>(ch :: vmptr chan) v. \<not> closed ch \<and> length (buf ch) = cap ch \<longrightarrow> chan_send ch v = SendBlocks)
       \<and> (\<forall>m created metadata vm. \<not> closed (warmVMs m) \<and> length (buf (warmVMs m)) = cap (warmVMs m) \<longrightarrow>
            Start_step created metadata (Sending vm) m = (Sending vm, m))"
proof (intro conjI allI impI)
  from pool_ok_new [OF assms] have ok: "pool_ok (snd (LoopHead, m0))" and n: "MachinePoolSize m0 = poolSize"
    by simp_all
  from pool_ok_run [OF ok, of env evs] size_run [of env evs "(LoopHead, m0)"] n
  show "int (length (buf (warmVMs (snd (run env evs (LoopHead, m0)))))) \<le> poolSize"
    by (simp add: pool_ok_def)
next
  fix m created metadata
  assume "\<not> stopping m \<and> \<not> ctxDone m \<and> int (length (buf (warmVMs m))) = MachinePoolSize m"
  then show "Start_step created metadata LoopHead m = (LoopHead, emit Sleep m)"
    by (simp add: Start_step_def)
next
  fix ch :: "vmptr chan" and v :: vmptr
  assume "\<not> closed ch \<and> length (buf ch) = cap ch"
  then show "chan_send ch v = SendBlocks" by (simp add: chan_send_def)
next
  fix m :: MachineManager and created metadata vm
  assume "\<not> closed (warmVMs m) \<and> length (buf (warmVMs m)) = cap (warmVMs m)"
  then show "Start_step created metadata (Sending vm) m = (Sending vm, m)"
    by (simp add: Start_step_def chan_send_def)
qed

lemma pool_events_run:
  "buf (warmVMs (snd (run quiet_env pool_events (LoopHead, fresh_node)))) = [0]"
  by (simp add: pool_events_def Start_step_def fresh_node_def stopping_def chan_send_def Let_def)

theorem warm_pool_bound_witness:
  "buf (warmVMs (snd (run quiet_env pool_events (LoopHead, fresh_node)))) = [0]
   \<and> int (length (buf (warmVMs (snd (run quiet_env pool_events (LoopHead, fresh_node)))))) \<le> 1
   \<and> Start_step (Inr (1, warm_vm)) None LoopHead full_node = (LoopHead, emit Sleep full_node)
   \<and> chan_send \<lparr>buf = [0], cap = 1, closed = False\<rparr> (1 :: vmptr) = SendBlocks
   \<and> Start_step (Inr (1, warm_vm)) None (Sending 1) full_node = (Sending 1, full_node)"
proof -
  note b = warm_pool_bound [OF fresh, of quiet_env pool_events]
  have 1: "int (length (buf (warmVMs (snd (run quiet_env pool_events (LoopHead, fresh_node)))))) \<le> 1"
    using b by simp
  have 2: "Start_step (Inr (1, warm_vm)) None LoopHead full_node = (LoopHead, emit Sleep full_node)"
    using b [THEN conjunct2, THEN conjunct1, rule_format, of full_node "Inr (1, warm_vm)" None]
    by (simp add: full_node_def fresh_node_def stopping_def)
  have 3: "chan_send \<lparr>buf = [0], cap = 1, closed = False\<rparr> (1 :: vmptr) = SendBlocks"
    using b [THEN conjunct2, THEN conjunct2, THEN conjunct1, rule_format,
        of "\<lparr>buf = [0], cap = 1, closed = False\<rparr>" 1]
    by simp
  have 4: "Start_step (Inr (1, warm_vm)) None (Sending 1) full_node = (Sending 1, full_node)"
    using b [THEN conjunct2, THEN conjunct2, THEN conjunct2, rule_format,
        of full_node "Inr (1, warm_vm)" None 1]
    by (simp add: full_node_def fresh_node_def)
  from pool_events_run 1 2 3 4 show ?thesis by simp
qed

end
